theory Spec2Isabelle
  imports Complex_Main "HOL-Library.AList"
begin

section \<open>Tables\<close>

text \<open>
  A cell of a table is an integer, a floating-point number, a text or the missing value
  (\<open>NaN\<close>). Floating-point cells stand for their exact rational value and integers are
  unbounded: rounding and 64-bit overflow are outside this development. A cell is an
  integer or a float as the code produced it; the one dtype pandas later gives a column
  of both (which changes no value) is not modelled.
\<close>

datatype cell = IntV int | FloatV rat | StrV string | NaN

text \<open>
  A row as \<open>DataFrame.apply(..., axis=1)\<close> hands it to its function: a series of
  cells labelled by the column names. A table has the name of its index, its column
  labels, and its rows, each a row key with the labelled cells. Column labels are taken
  to be unique, as \<open>read_csv\<close> makes them.
\<close>

type_synonym series = "(string \<times> cell) list"

record dataframe =
  index_name :: "string option"
  columns :: "string list"
  rows :: "(cell \<times> series) list"

datatype error = KeyError | TypeError | ValueError | AttributeError | UnboundLocalError

text \<open>\<open>row[label]\<close>: the cell under a label, \<open>KeyError\<close> when the label is absent.\<close>

definition getitem :: "series \<Rightarrow> string \<Rightarrow> error + cell" where
  "getitem row label = (case map_of row label of None \<Rightarrow> Inl KeyError | Some v \<Rightarrow> Inr v)"

text \<open>
  The dtype of a row handed over by \<open>apply(..., axis=1)\<close> is the common dtype of the
  table's columns: 64-bit integers when every cell is an integer, objects (Python
  values) when some column holds text, and 64-bit floats otherwise.
\<close>

datatype dtype = Int64 | Float64 | Object

fun is_int :: "cell \<Rightarrow> bool" where
  "is_int (IntV n) = True"
| "is_int _ = False"

fun is_text :: "cell \<Rightarrow> bool" where
  "is_text (StrV t) = True"
| "is_text _ = False"

definition cells_of :: "(cell \<times> series) list \<Rightarrow> cell list" where
  "cells_of rs = concat (map (\<lambda>(k, r). map snd r) rs)"

definition common_dtype :: "(cell \<times> series) list \<Rightarrow> dtype" where
  "common_dtype rs =
     (if list_all is_int (cells_of rs) then Int64
      else if list_ex is_text (cells_of rs) then Object
      else Float64)"

text \<open>The values of a column, row by row.\<close>

definition column_values :: "dataframe \<Rightarrow> string \<Rightarrow> cell list" where
  "column_values df label =
     map (\<lambda>(k, r). case map_of r label of Some v \<Rightarrow> v | None \<Rightarrow> NaN) (rows df)"

text \<open>
  \<open>df.apply(f, axis=1)\<close> on a table with rows and columns: \<open>f\<close> on every row in
  order, the first exception ends the call, and the results make a series
  (\<open>each_row\<close>).

  On a table without rows, or without columns, pandas does not run that loop. It calls
  \<open>f\<close> once on a series that has the column labels and only missing values (\<open>probe\<close>,
  of dtype float64). When that call raises, the exception is dropped and \<open>apply\<close>
  returns a copy of the table, a \<open>DataFrame\<close>. When it returns a value, \<open>apply\<close>
  returns a series with one entry per row: none when there is no row; otherwise \<open>f\<close>
  is called once more, on a float64 series without entries, and what it returns is the
  entry of every row. So what \<open>apply\<close> returns is a series or a table.
\<close>

datatype applied = SeriesOf "cell list" | FrameOf dataframe

fun each_row :: "(series \<Rightarrow> error + cell) \<Rightarrow> (cell \<times> series) list \<Rightarrow> error + cell list" where
  "each_row f [] = Inr []"
| "each_row f ((k, r) # rs) =
     (case f r of
        Inl e \<Rightarrow> Inl e
      | Inr v \<Rightarrow> (case each_row f rs of Inl e \<Rightarrow> Inl e | Inr vs \<Rightarrow> Inr (v # vs)))"

definition probe :: "dataframe \<Rightarrow> series" where
  "probe df = map (\<lambda>c. (c, NaN)) (columns df)"

definition apply_rows :: "(dtype \<Rightarrow> series \<Rightarrow> error + cell) \<Rightarrow> dataframe \<Rightarrow> error + applied" where
  "apply_rows f df =
     (if rows df = [] \<or> columns df = [] then
        (case f Float64 (probe df) of
           Inl e \<Rightarrow> Inr (FrameOf df)
         | Inr v \<Rightarrow>
             (if rows df = [] then Inr (SeriesOf [])
              else
                (case f Float64 [] of
                   Inl e \<Rightarrow> Inl e
                 | Inr r \<Rightarrow> Inr (SeriesOf (replicate (length (rows df)) r)))))
      else
        (case each_row (f (common_dtype (rows df))) (rows df) of
           Inl e \<Rightarrow> Inl e
         | Inr vs \<Rightarrow> Inr (SeriesOf vs)))"

text \<open>
  \<open>df[label] = values\<close> with values aligned to the rows: an existing column is
  overwritten in place, a new one is appended as the last column.
\<close>

definition setitem :: "dataframe \<Rightarrow> string \<Rightarrow> cell list \<Rightarrow> dataframe" where
  "setitem df label vs =
     df\<lparr>columns := (if label \<in> set (columns df) then columns df else columns df @ [label]),
        rows := map (\<lambda>((k, r), v). (k, AList.update label v r)) (zip (rows df) vs)\<rparr>"

text \<open>
  \<open>df[label] = value\<close> for what \<open>apply\<close> returned. A series is assigned as above.
  A table is accepted only when it has exactly one column, which is then assigned;
  with more columns or none the assignment raises \<open>ValueError\<close>.
\<close>

definition df_setitem :: "dataframe \<Rightarrow> string \<Rightarrow> applied \<Rightarrow> error + dataframe" where
  "df_setitem df label value =
     (case value of
        SeriesOf vs \<Rightarrow> Inr (setitem df label vs)
      | FrameOf d \<Rightarrow>
          (case columns d of
             [c] \<Rightarrow> Inr (setitem df label (column_values d c))
           | _ \<Rightarrow> Inl ValueError))"

text \<open>
  \<open>df.set_index(label, drop=True)\<close>: the column becomes the row key and leaves the
  columns; \<open>KeyError\<close> when there is no such column. Duplicate keys are accepted, as
  pandas accepts them (\<open>verify_integrity\<close> is off).
\<close>

fun index_rows :: "string \<Rightarrow> (cell \<times> series) list \<Rightarrow> error + (cell \<times> series) list" where
  "index_rows label [] = Inr []"
| "index_rows label ((k, r) # rs) =
     (case getitem r label of
        Inl e \<Rightarrow> Inl e
      | Inr v \<Rightarrow> (case index_rows label rs of
                   Inl e \<Rightarrow> Inl e
                 | Inr rs' \<Rightarrow> Inr ((v, AList.delete label r) # rs')))"

definition df_set_index :: "dataframe \<Rightarrow> string \<Rightarrow> error + dataframe" where
  "df_set_index df label =
     (if label \<in> set (columns df) then
        (case index_rows label (rows df) of
           Inl e \<Rightarrow> Inl e
         | Inr rs \<Rightarrow> Inr \<lparr>index_name = Some label,
                          columns = removeAll label (columns df),
                          rows = rs\<rparr>)
      else Inl KeyError)"

text \<open>\<open>df.drop(labels=labels, axis=1)\<close>: \<open>KeyError\<close> when a label is not a column.\<close>

definition df_drop :: "dataframe \<Rightarrow> string list \<Rightarrow> error + dataframe" where
  "df_drop df labels =
     (if list_all (\<lambda>l. l \<in> set (columns df)) labels then
        Inr (df\<lparr>columns := filter (\<lambda>c. c \<notin> set labels) (columns df),
                rows := map (\<lambda>(k, r). (k, filter (\<lambda>(c, v). c \<notin> set labels) r)) (rows df)\<rparr>)
      else Inl KeyError)"

section \<open>Objects, the log and exceptions\<close>

text \<open>
  Tables are objects: a Python value is a reference to a table in the store, or
  \<open>None\<close>. \<open>copy\<close>, \<open>set_index\<close> and \<open>drop\<close> make a new object; an item assignment
  changes the object it is applied to. The state also holds what was sent to the logger.
\<close>

datatype pyval = Ref nat | PyNone

datatype level = INFO | ERROR

record state =
  heap :: "dataframe list"
  logged :: "(level \<times> string) list"

type_synonym 'a prog = "state \<Rightarrow> (error + 'a) \<times> state"

definition logger_info :: "string \<Rightarrow> state \<Rightarrow> state" where
  "logger_info msg s = s\<lparr>logged := logged s @ [(INFO, msg)]\<rparr>"

definition logger_exception :: "string \<Rightarrow> state \<Rightarrow> state" where
  "logger_exception msg s = s\<lparr>logged := logged s @ [(ERROR, msg)]\<rparr>"

text \<open>
  The table behind a value. A method call on \<open>None\<close> raises \<open>AttributeError\<close>; a
  reference outside the store denotes no table and is treated alike.
\<close>

definition deref :: "state \<Rightarrow> pyval \<Rightarrow> error + dataframe" where
  "deref s x =
     (case x of
        PyNone \<Rightarrow> Inl AttributeError
      | Ref a \<Rightarrow> if a < length (heap s) then Inr (heap s ! a) else Inl AttributeError)"

definition alloc :: "dataframe \<Rightarrow> pyval prog" where
  "alloc d s = (Inr (Ref (length (heap s))), s\<lparr>heap := heap s @ [d]\<rparr>)"

text \<open>The table of a result, \<open>None\<close> for a value that is no table.\<close>

definition table_of :: "state \<Rightarrow> pyval \<Rightarrow> dataframe option" where
  "table_of s x = (case deref s x of Inl e \<Rightarrow> None | Inr d \<Rightarrow> Some d)"

definition method_copy :: "pyval \<Rightarrow> pyval prog" where
  "method_copy x s = (case deref s x of Inl e \<Rightarrow> (Inl e, s) | Inr d \<Rightarrow> alloc d s)"

definition method_set_index :: "pyval \<Rightarrow> string \<Rightarrow> pyval prog" where
  "method_set_index x label s =
     (case deref s x of
        Inl e \<Rightarrow> (Inl e, s)
      | Inr d \<Rightarrow> (case df_set_index d label of Inl e \<Rightarrow> (Inl e, s) | Inr d' \<Rightarrow> alloc d' s))"

definition method_drop :: "pyval \<Rightarrow> string list \<Rightarrow> pyval prog" where
  "method_drop x labels s =
     (case deref s x of
        Inl e \<Rightarrow> (Inl e, s)
      | Inr d \<Rightarrow> (case df_drop d labels of Inl e \<Rightarrow> (Inl e, s) | Inr d' \<Rightarrow> alloc d' s))"

definition method_apply :: "pyval \<Rightarrow> (dtype \<Rightarrow> series \<Rightarrow> error + cell) \<Rightarrow> applied prog" where
  "method_apply x f s =
     (case deref s x of Inl e \<Rightarrow> (Inl e, s) | Inr d \<Rightarrow> (apply_rows f d, s))"

definition method_setitem :: "pyval \<Rightarrow> string \<Rightarrow> applied \<Rightarrow> unit prog" where
  "method_setitem x label value s =
     (case x of
        Ref a \<Rightarrow>
          (if a < length (heap s) then
             (case df_setitem (heap s ! a) label value of
                Inl e \<Rightarrow> (Inl e, s)
              | Inr d \<Rightarrow> (Inr (), s\<lparr>heap := (heap s)[a := d]\<rparr>))
           else (Inl TypeError, s))
      | PyNone \<Rightarrow> (Inl TypeError, s))"

section \<open>The transforms\<close>

subsection \<open>set_df_index\<close>

text \<open>
  The local \<open>df_out\<close> is bound only when \<open>set_index\<close> returns; the \<open>return\<close>
  stands after the \<open>try\<close> statement and reads it in either case.
\<close>

definition set_df_index :: "pyval \<Rightarrow> string \<Rightarrow> pyval prog" where
  "set_df_index df df_index_col s0 =
     (let s1 = logger_info ''Running set_df_index()'' s0;
          (df_out, s2) =
            (case method_set_index df df_index_col s1 of
               (Inr v, s') \<Rightarrow> (Some v, s')
             | (Inl e, s') \<Rightarrow> (None, logger_exception ''Error in set_df_index()'' s'))
      in case df_out of
           None \<Rightarrow> (Inl UnboundLocalError, s2)
         | Some v \<Rightarrow> (Inr v, s2))"

subsection \<open>drop_columns\<close>

text \<open>
  Here, and in the three transforms below, the \<open>return\<close> is inside the \<open>try\<close>; after
  the handler the function ends without one and so returns \<open>None\<close>.
\<close>

definition drop_columns :: "pyval \<Rightarrow> string list \<Rightarrow> pyval prog" where
  "drop_columns df drop_column_names s0 =
     (let s1 = logger_info ''Running drop_columns()'' s0
      in case method_drop df drop_column_names s1 of
           (Inr df_out, s2) \<Rightarrow> (Inr df_out, s2)
         | (Inl e, s2) \<Rightarrow> (Inr PyNone, logger_exception ''Error in drop_columns()'' s2))"

subsection \<open>create_title_cat\<close>

text \<open>
  \<open>re.search(r' ([A-Za-z]+)\.', text)\<close>. A match at a position is a space, then one
  or more letters, then a period. The letters are matched greedily and a period is no
  letter, so only the whole run of letters after the space can be followed by the
  period: \<open>match_here\<close> takes that run. \<open>re_search\<close> tries the positions from the left
  and returns group 1 of the first match.
\<close>

definition is_letter :: "char \<Rightarrow> bool" where
  "is_letter c =
     (let n = (of_char c :: nat) in (65 \<le> n \<and> n \<le> 90) \<or> (97 \<le> n \<and> n \<le> 122))"

definition match_here :: "string \<Rightarrow> string option" where
  "match_here s =
     (case s of
        [] \<Rightarrow> None
      | c # rest \<Rightarrow>
          if c = CHR '' '' then
            (let word = takeWhile is_letter rest; after = dropWhile is_letter rest
             in if word \<noteq> [] \<and> (case after of [] \<Rightarrow> False | d # _ \<Rightarrow> d = CHR ''.'')
                then Some word else None)
          else None)"

fun re_search :: "string \<Rightarrow> string option" where
  "re_search [] = None"
| "re_search (c # cs) =
     (case match_here (c # cs) of Some w \<Rightarrow> Some w | None \<Rightarrow> re_search cs)"

text \<open>
  The inner function \<open>extract_title\<close>: \<open>re.search\<close> raises \<open>TypeError\<close> on a cell
  that is no text.
\<close>

definition extract_title :: "series \<Rightarrow> string \<Rightarrow> error + cell" where
  "extract_title row source_column =
     (case getitem row source_column of
        Inl e \<Rightarrow> Inl e
      | Inr (StrV text) \<Rightarrow>
          (case re_search text of
             Some title \<Rightarrow> Inr (StrV title)
           | None \<Rightarrow> Inr (StrV []))
      | Inr _ \<Rightarrow> Inl TypeError)"

text \<open>
  \<open>.replace(title_codes)\<close>, on a series or on a table: a value that is a key of the
  dictionary becomes the key's value, any other value stays. A dictionary is a list of
  its items, each key once.
\<close>

fun replace_cell :: "(string \<times> string) list \<Rightarrow> cell \<Rightarrow> cell" where
  "replace_cell codes (StrV t) = (case map_of codes t of Some c \<Rightarrow> StrV c | None \<Rightarrow> StrV t)"
| "replace_cell codes v = v"

definition series_replace :: "(string \<times> string) list \<Rightarrow> cell list \<Rightarrow> cell list" where
  "series_replace codes vs = map (replace_cell codes) vs"

definition frame_replace :: "(string \<times> string) list \<Rightarrow> dataframe \<Rightarrow> dataframe" where
  "frame_replace codes d =
     d\<lparr>rows := map (\<lambda>(k, r). (k, map (\<lambda>(c, v). (c, replace_cell codes v)) r)) (rows d)\<rparr>"

fun applied_replace :: "(string \<times> string) list \<Rightarrow> applied \<Rightarrow> applied" where
  "applied_replace codes (SeriesOf vs) = SeriesOf (series_replace codes vs)"
| "applied_replace codes (FrameOf d) = FrameOf (frame_replace codes d)"

definition seq :: "'a prog \<Rightarrow> ('a \<Rightarrow> 'b prog) \<Rightarrow> 'b prog" where
  "seq m f s = (case m s of (Inl e, s') \<Rightarrow> (Inl e, s') | (Inr v, s') \<Rightarrow> f v s')"

definition ret :: "'a \<Rightarrow> 'a prog" where
  "ret v s = (Inr v, s)"

text \<open>
  \<open>try: body  except Exception: logger.exception(msg)\<close> in a function that ends
  after the handler: the value of the body, or \<open>None\<close> with the message logged.
\<close>

definition try_log :: "string \<Rightarrow> pyval prog \<Rightarrow> pyval prog" where
  "try_log msg body s =
     (case body s of
        (Inr v, s') \<Rightarrow> (Inr v, s')
      | (Inl e, s') \<Rightarrow> (Inr PyNone, logger_exception msg s'))"

definition create_title_cat ::
  "pyval \<Rightarrow> string \<Rightarrow> string \<Rightarrow> (string \<times> string) list \<Rightarrow> pyval prog" where
  "create_title_cat df source_column dest_column title_codes s0 =
     try_log ''Error in create_title_cat()''
       (seq (method_copy df) (\<lambda>df_out.
        seq (method_apply df_out (\<lambda>dt row. extract_title row source_column)) (\<lambda>titles.
        seq (method_setitem df_out dest_column (applied_replace title_codes titles)) (\<lambda>_.
        ret df_out))))
       (logger_info ''Running create_title_cat()'' s0)"

subsection \<open>impute_age\<close>

text \<open>\<open>pd.isnull\<close> on a cell.\<close>

definition isnull :: "cell \<Rightarrow> bool" where
  "isnull v = (v = NaN)"

text \<open>
  \<open>int(x)\<close>: a float is cut towards zero, \<open>NaN\<close> raises \<open>ValueError\<close>. A text is
  read, between white space, as an optional sign and decimal digits, which may have
  single underscores between them; any other text raises \<open>ValueError\<close>. (Digits and
  spaces beyond ASCII are not told apart in a byte string and are left out. In a row of
  dtype float64 an integer of the table is read as the nearest float, the integer
  itself up to magnitude \<open>2^53\<close>; larger integers in such rows are left out as well.)
\<close>

definition py_trunc :: "rat \<Rightarrow> int" where
  "py_trunc q = (if 0 \<le> q then \<lfloor>q\<rfloor> else \<lceil>q\<rceil>)"

definition is_digit :: "char \<Rightarrow> bool" where
  "is_digit c = (let n = (of_char c :: nat) in 48 \<le> n \<and> n \<le> 57)"

fun well_grouped :: "string \<Rightarrow> bool" where
  "well_grouped [] = False"
| "well_grouped [c] = is_digit c"
| "well_grouped (c # d # r) =
     (is_digit c \<and> (if d = CHR ''_'' then well_grouped r else well_grouped (d # r)))"

definition digits_value :: "string \<Rightarrow> int option" where
  "digits_value ds =
     (if well_grouped ds
      then Some (foldl (\<lambda>acc c. 10 * acc + (int (of_char c) - 48)) 0 (filter is_digit ds))
      else None)"

definition is_space :: "char \<Rightarrow> bool" where
  "is_space c =
     (let n = (of_char c :: nat) in n = 32 \<or> (9 \<le> n \<and> n \<le> 13) \<or> (28 \<le> n \<and> n \<le> 31))"

definition strip :: "string \<Rightarrow> string" where
  "strip s = rev (dropWhile is_space (rev (dropWhile is_space s)))"

definition int_of_str :: "string \<Rightarrow> int option" where
  "int_of_str s =
     (case strip s of
        [] \<Rightarrow> None
      | c # r \<Rightarrow>
          if c = CHR ''-'' then map_option uminus (digits_value r)
          else if c = CHR ''+'' then digits_value r
          else digits_value (c # r))"

fun py_int :: "cell \<Rightarrow> error + cell" where
  "py_int (IntV n) = Inr (IntV n)"
| "py_int (FloatV q) = Inr (IntV (py_trunc q))"
| "py_int (StrV s) = (case int_of_str s of Some n \<Rightarrow> Inr (IntV n) | None \<Rightarrow> Inl ValueError)"
| "py_int NaN = Inl ValueError"

text \<open>
  The loop \<open>for key, value in age_codes.items(): if row[title_column] == key: age = value\<close>,
  with the local \<open>age\<close> unbound (\<open>None\<close> here) until a key is equal to the row's title.
  The keys are texts, so only a text cell is equal to one.
\<close>

fun assign_age :: "series \<Rightarrow> string \<Rightarrow> (string \<times> cell) list \<Rightarrow> cell option \<Rightarrow> error + cell option" where
  "assign_age row title_column [] age = Inr age"
| "assign_age row title_column ((key, value) # items) age =
     (case getitem row title_column of
        Inl e \<Rightarrow> Inl e
      | Inr t \<Rightarrow> assign_age row title_column items (if t = StrV key then Some value else age))"

text \<open>The inner function \<open>infer_age\<close>; \<open>return age\<close> with \<open>age\<close> unbound raises.\<close>

definition infer_age :: "series \<Rightarrow> string \<Rightarrow> string \<Rightarrow> (string \<times> cell) list \<Rightarrow> error + cell" where
  "infer_age row source_column title_column age_codes =
     (case getitem row source_column of
        Inl e \<Rightarrow> Inl e
      | Inr v \<Rightarrow>
          (case (if isnull v then assign_age row title_column age_codes None
                 else (case py_int v of Inl e \<Rightarrow> Inl e | Inr n \<Rightarrow> Inr (Some n))) of
             Inl e \<Rightarrow> Inl e
           | Inr None \<Rightarrow> Inl UnboundLocalError
           | Inr (Some age) \<Rightarrow> Inr age))"

definition impute_age ::
  "pyval \<Rightarrow> string \<Rightarrow> string \<Rightarrow> (string \<times> cell) list \<Rightarrow> pyval prog" where
  "impute_age df source_column title_column age_codes s0 =
     try_log ''Error in impute_age()''
       (seq (method_copy df) (\<lambda>df_out.
        seq (method_apply df_out
               (\<lambda>dt row. infer_age row source_column title_column age_codes)) (\<lambda>ages.
        seq (method_setitem df_out source_column ages) (\<lambda>_.
        ret df_out))))
       (logger_info ''Running impute_age()'' s0)"

subsection \<open>create_family_size\<close>

text \<open>
  \<open>row[source_columns]\<close> selects the cells under a list of labels (\<open>KeyError\<close> when
  one is absent).
\<close>

fun getitems :: "series \<Rightarrow> string list \<Rightarrow> error + cell list" where
  "getitems row [] = Inr []"
| "getitems row (l # ls) =
     (case getitem row l of
        Inl e \<Rightarrow> Inl e
      | Inr v \<Rightarrow> (case getitems row ls of Inl e \<Rightarrow> Inl e | Inr vs \<Rightarrow> Inr (v # vs)))"

text \<open>
  \<open>.sum() + 1\<close> on the selected cells. Missing values are skipped; a text among the
  summands raises \<open>TypeError\<close>, at the sum or at the \<open>+ 1\<close>. What the numbers add up
  to depends on the dtype of the row:
  \<^item> in a row of 64-bit integers the sum, and then the sum plus one, wrap around at
    \<open>2^63\<close> (\<open>wrap64\<close>);
  \<^item> in a row of Python objects integers are unbounded and their sum is exact;
  \<^item> in a row of floats, and for Python numbers with a float among them, the additions
    are floating-point additions, which round. Floating-point arithmetic is not
    modelled: that result is \<open>float_total\<close> of the summands, a parameter.
\<close>

definition wrap64 :: "int \<Rightarrow> int" where
  "wrap64 n = (n + 9223372036854775808) mod 18446744073709551616 - 9223372036854775808"

fun int_of :: "cell \<Rightarrow> int" where
  "int_of (IntV n) = n"
| "int_of _ = 0"

definition sum_plus_one :: "(cell list \<Rightarrow> rat) \<Rightarrow> dtype \<Rightarrow> cell list \<Rightarrow> error + cell" where
  "sum_plus_one float_total dt vs =
     (let present = filter (\<lambda>v. \<not> isnull v) vs in
      if list_ex is_text present then Inl TypeError
      else if dt = Int64 \<and> list_all is_int present then
        Inr (IntV (wrap64 (wrap64 (sum_list (map int_of present)) + 1)))
      else if dt = Object \<and> list_all is_int present then
        Inr (IntV (sum_list (map int_of present) + 1))
      else Inr (FloatV (float_total vs)))"

text \<open>The function \<open>lambda row: row[source_columns].sum() + 1\<close>.\<close>

definition family_size ::
  "(cell list \<Rightarrow> rat) \<Rightarrow> string list \<Rightarrow> dtype \<Rightarrow> series \<Rightarrow> error + cell" where
  "family_size float_total source_columns dt row =
     (case getitems row source_columns of
        Inl e \<Rightarrow> Inl e
      | Inr vs \<Rightarrow> sum_plus_one float_total dt vs)"

definition create_family_size ::
  "(cell list \<Rightarrow> rat) \<Rightarrow> pyval \<Rightarrow> string list \<Rightarrow> string \<Rightarrow> pyval prog" where
  "create_family_size float_total df source_columns dest_column s0 =
     try_log ''Error in create_family_size()''
       (seq (method_copy df) (\<lambda>df_out.
        seq (method_apply df_out (family_size float_total source_columns)) (\<lambda>sizes.
        seq (method_setitem df_out dest_column sizes) (\<lambda>_.
        ret df_out))))
       (logger_info ''Running create_family_size()'' s0)"

section \<open>The pipeline\<close>

text \<open>
  The option bundle of a step is the dictionary that \<open>FunctionTransformer\<close> passes as
  keyword arguments, \<open>func(X, **kw_args)\<close>. A bundle is taken complete and typed as one
  of the four signatures annotates it. Given to another of the four functions it names
  a parameter that function does not have, and the call raises \<open>TypeError\<close> before the
  function's body starts.
\<close>

datatype kwargs =
    SetDfIndexKw string
  | CreateTitleCatKw string string "(string \<times> string) list"
  | ImputeAgeKw string string "(string \<times> cell) list"
  | DropColumnsKw "string list"

fun call_set_df_index :: "pyval \<Rightarrow> kwargs \<Rightarrow> pyval prog" where
  "call_set_df_index X (SetDfIndexKw df_index_col) = set_df_index X df_index_col"
| "call_set_df_index X _ = (\<lambda>s. (Inl TypeError, s))"

fun call_create_title_cat :: "pyval \<Rightarrow> kwargs \<Rightarrow> pyval prog" where
  "call_create_title_cat X (CreateTitleCatKw source_column dest_column title_codes) =
     create_title_cat X source_column dest_column title_codes"
| "call_create_title_cat X _ = (\<lambda>s. (Inl TypeError, s))"

fun call_impute_age :: "pyval \<Rightarrow> kwargs \<Rightarrow> pyval prog" where
  "call_impute_age X (ImputeAgeKw source_column title_column age_codes) =
     impute_age X source_column title_column age_codes"
| "call_impute_age X _ = (\<lambda>s. (Inl TypeError, s))"

fun call_drop_columns :: "pyval \<Rightarrow> kwargs \<Rightarrow> pyval prog" where
  "call_drop_columns X (DropColumnsKw drop_column_names) = drop_columns X drop_column_names"
| "call_drop_columns X _ = (\<lambda>s. (Inl TypeError, s))"

text \<open>
  scikit-learn's \<open>FunctionTransformer\<close> (no validation, no inverse): fitting does not
  call the function, transforming calls it once with the bundle. \<open>Pipeline.fit_transform\<close>
  hands the result of each step to the next and returns the result of the last.
\<close>

record function_transformer =
  func :: "pyval \<Rightarrow> kwargs \<Rightarrow> pyval prog"
  kw_args :: kwargs

type_synonym pipeline = "(string \<times> function_transformer) list"

definition transformer_fit_transform :: "function_transformer \<Rightarrow> pyval \<Rightarrow> pyval prog" where
  "transformer_fit_transform t X = func t X (kw_args t)"

fun fit_transform :: "pipeline \<Rightarrow> pyval \<Rightarrow> pyval prog" where
  "fit_transform [] X = (\<lambda>s. (Inl ValueError, s))"
| "fit_transform [(name, t)] X = transformer_fit_transform t X"
| "fit_transform ((name, t) # steps) X =
     seq (transformer_fit_transform t X) (fit_transform steps)"

text \<open>\<open>create_pipeline\<close>: four dictionary lookups, then the four steps.\<close>

definition create_pipeline :: "(string \<rightharpoonup> kwargs) \<Rightarrow> error + pipeline" where
  "create_pipeline pipeline_parameters =
     (case pipeline_parameters ''set_df_index_kw_args'' of
        None \<Rightarrow> Inl KeyError
      | Some set_df_index_kw_args \<Rightarrow>
     (case pipeline_parameters ''create_title_cat_kw_args'' of
        None \<Rightarrow> Inl KeyError
      | Some create_title_cat_kw_args \<Rightarrow>
     (case pipeline_parameters ''drop_columns_kw_args'' of
        None \<Rightarrow> Inl KeyError
      | Some drop_columns_kw_args \<Rightarrow>
     (case pipeline_parameters ''impute_age_kw_args'' of
        None \<Rightarrow> Inl KeyError
      | Some impute_age_kw_args \<Rightarrow>
          Inr [(''Set dataframe index'',
                  \<lparr>func = call_set_df_index, kw_args = set_df_index_kw_args\<rparr>),
               (''Create title_cat column'',
                  \<lparr>func = call_create_title_cat, kw_args = create_title_cat_kw_args\<rparr>),
               (''Impute missing Age values'',
                  \<lparr>func = call_impute_age, kw_args = impute_age_kw_args\<rparr>),
               (''Drop columns'',
                  \<lparr>func = call_drop_columns, kw_args = drop_columns_kw_args\<rparr>)]))))"

text \<open>
  Folding a table through a sequence of step functions, as the specification words it:
  each function gets the result of the one before; an exception ends the sequence.
\<close>

fun fold_through :: "(pyval \<Rightarrow> pyval prog) list \<Rightarrow> pyval \<Rightarrow> pyval prog" where
  "fold_through [] X = ret X"
| "fold_through (f # fs) X = seq (f X) (fold_through fs)"

section \<open>Ingest and split\<close>

text \<open>
  \<open>df[label]\<close> on a table is a \<open>Series\<close> object holding the column. \<open>isinstance(x,
  np.int64)\<close> holds of a 64-bit integer scalar and of no other object.
\<close>

datatype pyobject = ScalarObj cell | SeriesObj "cell list"

fun isinstance_int64 :: "pyobject \<Rightarrow> bool" where
  "isinstance_int64 (ScalarObj (IntV n)) = True"
| "isinstance_int64 _ = False"

definition df_getitem :: "dataframe \<Rightarrow> string \<Rightarrow> error + pyobject" where
  "df_getitem df label =
     (if label \<in> set (columns df) then Inr (SeriesObj (column_values df label))
      else Inl KeyError)"

text \<open>
  \<open>.astype(float)\<close> on a series: integers become floats; a text that is no number
  raises \<open>ValueError\<close> (of the texts, only whole numbers are read here).
\<close>

fun float_of_cell :: "cell \<Rightarrow> error + cell" where
  "float_of_cell (IntV n) = Inr (FloatV (of_int n))"
| "float_of_cell (FloatV q) = Inr (FloatV q)"
| "float_of_cell NaN = Inr NaN"
| "float_of_cell (StrV s) =
     (case int_of_str s of Some n \<Rightarrow> Inr (FloatV (of_int n)) | None \<Rightarrow> Inl ValueError)"

fun astype_float :: "cell list \<Rightarrow> error + cell list" where
  "astype_float [] = Inr []"
| "astype_float (v # vs) =
     (case float_of_cell v of
        Inl e \<Rightarrow> Inl e
      | Inr w \<Rightarrow> (case astype_float vs of Inl e \<Rightarrow> Inl e | Inr ws \<Rightarrow> Inr (w # ws)))"

definition object_astype_float :: "pyobject \<Rightarrow> error + cell list" where
  "object_astype_float obj =
     (case obj of
        SeriesObj vs \<Rightarrow> astype_float vs
      | ScalarObj v \<Rightarrow> (case float_of_cell v of Inl e \<Rightarrow> Inl e | Inr w \<Rightarrow> Inr [w]))"

text \<open>
  The two loops under \<open># Convert ints to floats\<close>. Both have the same body, which
  reads and assigns \<open>df_train\<close>; the first runs over the columns of \<open>df_train\<close>, the
  second over the columns of \<open>df_holdout\<close>. \<open>convert_loop\<close> is that body over a list
  of column names.
\<close>

fun convert_loop :: "string list \<Rightarrow> dataframe \<Rightarrow> error + dataframe" where
  "convert_loop [] df_train = Inr df_train"
| "convert_loop (column # cs) df_train =
     (case df_getitem df_train column of
        Inl e \<Rightarrow> Inl e
      | Inr obj \<Rightarrow>
          if isinstance_int64 obj then
            (case object_astype_float obj of
               Inl e \<Rightarrow> Inl e
             | Inr vs \<Rightarrow> convert_loop cs (setitem df_train column vs))
          else convert_loop cs df_train)"

text \<open>\<open>df[[label]]\<close>: the table of the one column.\<close>

definition df_select :: "dataframe \<Rightarrow> string \<Rightarrow> error + dataframe" where
  "df_select df label =
     (if label \<in> set (columns df) then
        Inr (df\<lparr>columns := [label],
                rows := map (\<lambda>(k, r). (k, filter (\<lambda>(c, v). c = label) r)) (rows df)\<rparr>)
      else Inl KeyError)"

text \<open>
  \<open>ingest_split\<close> on the two tables as \<open>read_csv\<close> loaded them. The three split
  parameters are looked up first; \<open>train_test_split\<close> with them is the parameter
  \<open>split\<close>. Reporting the parameters to the tracking service has no effect on the
  result and is left out.
\<close>

definition ingest_split ::
  "('p \<Rightarrow> 'p \<Rightarrow> 'p \<Rightarrow> dataframe \<Rightarrow> dataframe
      \<Rightarrow> dataframe \<times> dataframe \<times> dataframe \<times> dataframe)
   \<Rightarrow> dataframe \<Rightarrow> dataframe \<Rightarrow> string \<Rightarrow> (string \<rightharpoonup> 'p)
   \<Rightarrow> error + (dataframe \<times> dataframe \<times> dataframe \<times> dataframe \<times> dataframe)" where
  "ingest_split split df_train0 df_holdout target ingest_split_parameters =
     (case ingest_split_parameters ''train_size'' of None \<Rightarrow> Inl KeyError | Some train_size \<Rightarrow>
     (case ingest_split_parameters ''test_size'' of None \<Rightarrow> Inl KeyError | Some test_size \<Rightarrow>
     (case ingest_split_parameters ''random_state'' of None \<Rightarrow> Inl KeyError | Some random_state \<Rightarrow>
     (case convert_loop (columns df_train0) df_train0 of Inl e \<Rightarrow> Inl e | Inr df_train1 \<Rightarrow>
     (case convert_loop (columns df_holdout) df_train1 of Inl e \<Rightarrow> Inl e | Inr df_train \<Rightarrow>
     (case df_drop df_train [target] of Inl e \<Rightarrow> Inl e | Inr X \<Rightarrow>
     (case df_select df_train target of Inl e \<Rightarrow> Inl e | Inr y \<Rightarrow>
        (case split train_size test_size random_state X y of
           (X_train, X_test, y_train, y_test) \<Rightarrow>
             Inr (X_train, X_test, y_train, y_test, df_holdout)))))))))"

section \<open>Notions of the specification\<close>









section \<open>Example inputs\<close>

definition passengers :: dataframe where
  "passengers =
     \<lparr>index_name = None,
      columns = [''PassengerId'', ''Name'', ''Age'', ''SibSp'', ''Parch'', ''TitleCat''],
      rows =
        [(IntV 0, [(''PassengerId'', IntV 1), (''Name'', StrV ''Braund, Mr. Owen Harris''),
                   (''Age'', FloatV (57 / 2)), (''SibSp'', IntV 1), (''Parch'', IntV 0),
                   (''TitleCat'', StrV ''gen_male'')]),
         (IntV 1, [(''PassengerId'', IntV 2), (''Name'', StrV ''Heikkinen, Miss. Laina''),
                   (''Age'', NaN), (''SibSp'', IntV 0), (''Parch'', IntV 2),
                   (''TitleCat'', StrV ''young_female'')])]\<rparr>"

definition store0 :: state where
  "store0 = \<lparr>heap = [passengers], logged = []\<rparr>"


definition no_names :: dataframe where
  "no_names = \<lparr>index_name = None, columns = [''Name''], rows = []\<rparr>"


definition example_parameters :: "string \<rightharpoonup> kwargs" where
  "example_parameters =
     [''set_df_index_kw_args'' \<mapsto> SetDfIndexKw ''PassengerId'',
      ''create_title_cat_kw_args'' \<mapsto>
         CreateTitleCatKw ''Name'' ''TitleCat'' [(''Mr'', ''gen_male'')],
      ''drop_columns_kw_args'' \<mapsto> DropColumnsKw [''Name''],
      ''impute_age_kw_args'' \<mapsto> ImputeAgeKw ''Age'' ''TitleCat'' [(''gen_male'', IntV 30)]]"

definition train_table :: dataframe where
  "train_table =
     \<lparr>index_name = None,
      columns = [''PassengerId'', ''Survived'', ''Pclass''],
      rows =
        [(IntV 0, [(''PassengerId'', IntV 1), (''Survived'', IntV 0), (''Pclass'', IntV 3)]),
         (IntV 1, [(''PassengerId'', IntV 2), (''Survived'', IntV 1), (''Pclass'', IntV 1)])]\<rparr>"

definition holdout_table :: dataframe where
  "holdout_table =
     \<lparr>index_name = None,
      columns = [''PassengerId'', ''Pclass''],
      rows = [(IntV 0, [(''PassengerId'', IntV 892), (''Pclass'', IntV 3)])]\<rparr>"

text \<open>The training table without its target column, and the target column alone.\<close>

definition train_features :: dataframe where
  "train_features =
     \<lparr>index_name = None,
      columns = [''PassengerId'', ''Pclass''],
      rows =
        [(IntV 0, [(''PassengerId'', IntV 1), (''Pclass'', IntV 3)]),
         (IntV 1, [(''PassengerId'', IntV 2), (''Pclass'', IntV 1)])]\<rparr>"

definition train_target :: dataframe where
  "train_target =
     \<lparr>index_name = None,
      columns = [''Survived''],
      rows = [(IntV 0, [(''Survived'', IntV 0)]), (IntV 1, [(''Survived'', IntV 1)])]\<rparr>"

definition split_parameters :: "string \<rightharpoonup> rat" where
  "split_parameters = [''train_size'' \<mapsto> 4 / 5, ''test_size'' \<mapsto> 1 / 5, ''random_state'' \<mapsto> 42]"

text \<open>
  \<open>create_title_cat\<close> run on the example table with the source column also the
  destination, and run again on its own output.
\<close>

definition renamed_once :: "(error + pyval) \<times> state" where
  "renamed_once = create_title_cat (Ref 0) ''Name'' ''Name'' [(''Mr'', ''gen_male'')] store0"

definition renamed_twice :: "(error + pyval) \<times> state" where
  "renamed_twice =
     create_title_cat (Ref 1) ''Name'' ''Name'' [(''Mr'', ''gen_male'')] (snd renamed_once)"

section \<open>Facts about the table operations\<close>


lemma each_row_fail:
  "(k, r) \<in> set rs \<Longrightarrow> f r = Inl e \<Longrightarrow> \<exists>e'. each_row f rs = Inl e'"
  by (induction rs) (auto split: sum.splits)

lemma each_row_length: "each_row f rs = Inr vs \<Longrightarrow> length vs = length rs"
  by (induction rs arbitrary: vs) (auto split: sum.splits)


text \<open>
  On a table with rows and columns, \<open>apply\<close> is the loop over the rows, at the
  rows' dtype.
\<close>

lemma apply_rows_nonempty:
  "rows d \<noteq> [] \<Longrightarrow> columns d \<noteq> [] \<Longrightarrow>
   apply_rows f d =
     (case each_row (f (common_dtype (rows d))) (rows d) of
        Inl e \<Rightarrow> Inl e
      | Inr vs \<Rightarrow> Inr (SeriesOf vs))"
  by (simp add: apply_rows_def)

text \<open>
  Assigning a column keeps the index name, the keys and every other column, and puts
  the label last among the columns when it is new.
\<close>

lemma setitem_length:
  "length vs = length (rows d) \<Longrightarrow> length (rows (setitem d c vs)) = length (rows d)"
  by (simp add: setitem_def)

lemma setitem_columns:
  "columns (setitem d c vs) = (if c \<in> set (columns d) then columns d else columns d @ [c])"
  by (simp add: setitem_def)








lemma deref_logged: "deref (s\<lparr>logged := l\<rparr>) x = deref s x"
  by (cases x) (simp_all add: deref_def)

lemma table_of_None: "table_of s PyNone = None"
  by (simp add: table_of_def deref_def)

lemma table_of_last: "table_of (s\<lparr>heap := h @ [d], logged := l\<rparr>) (Ref (length h)) = Some d"
  by (simp add: table_of_def deref_def)

lemma table_of_logged: "table_of (s\<lparr>logged := l\<rparr>) x = table_of s x"
  by (simp add: table_of_def deref_logged)

lemma table_of_extend:
  "deref s x = Inr d \<Longrightarrow> table_of (s\<lparr>heap := heap s @ [y], logged := l\<rparr>) x = Some d"
  by (cases x) (auto simp: table_of_def deref_def nth_append split: if_splits)

text \<open>
  The three transforms that copy, apply a row function and assign a column have one
  shape: on a value that is no table, or when \<open>apply\<close> or the assignment raises, the
  handler logs and the result is \<open>None\<close>; otherwise the result is the new object, the
  copy with the column assigned.
\<close>

lemma copy_apply_set:
  "try_log msg
     (seq (method_copy df) (\<lambda>df_out.
      seq (method_apply df_out f) (\<lambda>value.
      seq (method_setitem df_out c (g value)) (\<lambda>_. ret df_out)))) s =
   (case deref s df of
      Inl e \<Rightarrow> (Inr PyNone, logger_exception msg s)
    | Inr d \<Rightarrow>
        (case apply_rows f d of
           Inl e \<Rightarrow> (Inr PyNone, logger_exception msg (s\<lparr>heap := heap s @ [d]\<rparr>))
         | Inr value \<Rightarrow>
             (case df_setitem d c (g value) of
                Inl e \<Rightarrow> (Inr PyNone, logger_exception msg (s\<lparr>heap := heap s @ [d]\<rparr>))
              | Inr d' \<Rightarrow> (Inr (Ref (length (heap s))), s\<lparr>heap := heap s @ [d']\<rparr>))))"
proof (cases "deref s df")
  case (Inl e)
  then show ?thesis by (simp add: try_log_def seq_def method_copy_def)
next
  case (Inr d)
  have copy: "method_copy df s = (Inr (Ref (length (heap s))), s\<lparr>heap := heap s @ [d]\<rparr>)"
    using Inr by (simp add: method_copy_def alloc_def)
  have d': "deref (s\<lparr>heap := heap s @ [d]\<rparr>) (Ref (length (heap s))) = Inr d"
    by (simp add: deref_def)
  show ?thesis
  proof (cases "apply_rows f d")
    case (Inl e)
    with Inr copy d' show ?thesis
      by (simp add: try_log_def seq_def method_apply_def)
  next
    case res: (Inr res)
    show ?thesis
    proof (cases "df_setitem d c (g res)")
      case (Inl e)
      with Inr copy d' res show ?thesis
        by (simp add: try_log_def seq_def method_apply_def method_setitem_def)
    next
      case assigned: (Inr assigned)
      with Inr copy d' res show ?thesis
        by (simp add: try_log_def seq_def method_apply_def method_setitem_def ret_def)
    qed
  qed
qed

lemma create_title_cat_unfold:
  "create_title_cat df source_column dest_column title_codes s =
   (case deref s df of
      Inl e \<Rightarrow>
        (Inr PyNone,
         s\<lparr>logged := logged s @ [(INFO, ''Running create_title_cat()''),
                                  (ERROR, ''Error in create_title_cat()'')]\<rparr>)
    | Inr d \<Rightarrow>
        (case (case apply_rows (\<lambda>dt row. extract_title row source_column) d of
                 Inl e \<Rightarrow> Inl e
               | Inr value \<Rightarrow> df_setitem d dest_column (applied_replace title_codes value)) of
           Inl e \<Rightarrow>
             (Inr PyNone,
              s\<lparr>heap := heap s @ [d],
                logged := logged s @ [(INFO, ''Running create_title_cat()''),
                                       (ERROR, ''Error in create_title_cat()'')]\<rparr>)
         | Inr df_out \<Rightarrow>
             (Inr (Ref (length (heap s))),
              s\<lparr>heap := heap s @ [df_out],
                logged := logged s @ [(INFO, ''Running create_title_cat()'')]\<rparr>)))"
  by (simp add: create_title_cat_def copy_apply_set deref_logged logger_info_def
      logger_exception_def split: sum.splits)

lemma impute_age_unfold:
  "impute_age df source_column title_column age_codes s =
   (case deref s df of
      Inl e \<Rightarrow>
        (Inr PyNone,
         s\<lparr>logged := logged s @ [(INFO, ''Running impute_age()''),
                                  (ERROR, ''Error in impute_age()'')]\<rparr>)
    | Inr d \<Rightarrow>
        (case (case apply_rows
                      (\<lambda>dt row. infer_age row source_column title_column age_codes) d of
                 Inl e \<Rightarrow> Inl e
               | Inr value \<Rightarrow> df_setitem d source_column value) of
           Inl e \<Rightarrow>
             (Inr PyNone,
              s\<lparr>heap := heap s @ [d],
                logged := logged s @ [(INFO, ''Running impute_age()''),
                                       (ERROR, ''Error in impute_age()'')]\<rparr>)
         | Inr df_out \<Rightarrow>
             (Inr (Ref (length (heap s))),
              s\<lparr>heap := heap s @ [df_out],
                logged := logged s @ [(INFO, ''Running impute_age()'')]\<rparr>)))"
  by (simp add: impute_age_def copy_apply_set [where g = "\<lambda>v. v"] deref_logged logger_info_def
      logger_exception_def split: sum.splits)

lemma create_family_size_unfold:
  "create_family_size float_total df source_columns dest_column s =
   (case deref s df of
      Inl e \<Rightarrow>
        (Inr PyNone,
         s\<lparr>logged := logged s @ [(INFO, ''Running create_family_size()''),
                                  (ERROR, ''Error in create_family_size()'')]\<rparr>)
    | Inr d \<Rightarrow>
        (case (case apply_rows (family_size float_total source_columns) d of
                 Inl e \<Rightarrow> Inl e
               | Inr value \<Rightarrow> df_setitem d dest_column value) of
           Inl e \<Rightarrow>
             (Inr PyNone,
              s\<lparr>heap := heap s @ [d],
                logged := logged s @ [(INFO, ''Running create_family_size()''),
                                       (ERROR, ''Error in create_family_size()'')]\<rparr>)
         | Inr df_out \<Rightarrow>
             (Inr (Ref (length (heap s))),
              s\<lparr>heap := heap s @ [df_out],
                logged := logged s @ [(INFO, ''Running create_family_size()'')]\<rparr>)))"
  by (simp add: create_family_size_def copy_apply_set [where g = "\<lambda>v. v"] deref_logged
      logger_info_def logger_exception_def split: sum.splits)

section \<open>The pipeline composer\<close>

text \<open>
  C9: when the configuration lacks any one of the four option bundles,
  \<open>create_pipeline\<close> fails with a key-lookup error and returns no pipeline. It takes
  no table and no state: the failure is at construction, before anything is applied.
\<close>

theorem create_pipeline_missing_key:
  assumes "k \<in> {''set_df_index_kw_args'', ''create_title_cat_kw_args'',
                ''drop_columns_kw_args'', ''impute_age_kw_args''}"
    and "pipeline_parameters k = None"
  shows "create_pipeline pipeline_parameters = Inl KeyError"
  using assms by (auto simp: create_pipeline_def split: option.splits)

theorem create_pipeline_missing_key_witness:
  "''impute_age_kw_args'' \<in> {''set_df_index_kw_args'', ''create_title_cat_kw_args'',
                ''drop_columns_kw_args'', ''impute_age_kw_args''}
   \<and> (example_parameters(''impute_age_kw_args'' := None)) ''impute_age_kw_args'' = None
   \<and> create_pipeline (example_parameters(''impute_age_kw_args'' := None)) = Inl KeyError"
proof -
  have h1: "''impute_age_kw_args'' \<in> {''set_df_index_kw_args'', ''create_title_cat_kw_args'',
                ''drop_columns_kw_args'', ''impute_age_kw_args''}" by simp
  have h2: "(example_parameters(''impute_age_kw_args'' := None)) ''impute_age_kw_args'' = None"
    by simp
  from create_pipeline_missing_key
         [of "''impute_age_kw_args''" "example_parameters(''impute_age_kw_args'' := None)",
          OF h1 h2] h1 h2
  show ?thesis by blast
qed

text \<open>
  C2: for a configuration that binds the four steps to their options, and every input
  table and state, fit-and-apply of the constructed pipeline is the fold of the input
  through the step functions in the order set-index, derive-title-category, impute-age,
  drop-columns.
\<close>

theorem pipeline_folds_in_order:
  assumes "pipeline_parameters ''set_df_index_kw_args'' = Some (SetDfIndexKw df_index_col)"
    and "pipeline_parameters ''create_title_cat_kw_args'' =
           Some (CreateTitleCatKw source_column dest_column title_codes)"
    and "pipeline_parameters ''impute_age_kw_args'' =
           Some (ImputeAgeKw age_column title_column age_codes)"
    and "pipeline_parameters ''drop_columns_kw_args'' = Some (DropColumnsKw drop_column_names)"
  shows "\<exists>p. create_pipeline pipeline_parameters = Inr p
           \<and> (\<forall>X s. fit_transform p X s =
                 fold_through
                   [\<lambda>df. set_df_index df df_index_col,
                    \<lambda>df. create_title_cat df source_column dest_column title_codes,
                    \<lambda>df. impute_age df age_column title_column age_codes,
                    \<lambda>df. drop_columns df drop_column_names] X s)"
proof -
  have seq_ret: "\<And>m. seq m ret = m"
    by (rule ext) (simp add: seq_def ret_def split: prod.splits sum.splits)
  have fold_nil: "fold_through [] = ret"
    by (rule ext) simp
  have fold_cons: "\<And>f fs. fold_through (f # fs) = (\<lambda>X. seq (f X) (fold_through fs))"
    by (rule ext) simp
  have fit_one: "\<And>n t. fit_transform [(n, t)] = transformer_fit_transform t"
    by (rule ext) simp
  have fit_more: "\<And>n t m u steps. fit_transform ((n, t) # (m, u) # steps) =
      (\<lambda>X. seq (transformer_fit_transform t X) (fit_transform ((m, u) # steps)))"
    by (rule ext) simp
  have call: "\<And>t. transformer_fit_transform t = (\<lambda>X. func t X (kw_args t))"
    by (rule ext) (simp add: transformer_fit_transform_def)
  show ?thesis
    using assms
    by (simp add: create_pipeline_def fit_one fit_more fold_nil fold_cons call seq_ret
        del: fit_transform.simps fold_through.simps)
qed

theorem pipeline_folds_in_order_witness:
  "example_parameters ''set_df_index_kw_args'' = Some (SetDfIndexKw ''PassengerId'')
   \<and> example_parameters ''create_title_cat_kw_args'' =
       Some (CreateTitleCatKw ''Name'' ''TitleCat'' [(''Mr'', ''gen_male'')])
   \<and> example_parameters ''impute_age_kw_args'' =
       Some (ImputeAgeKw ''Age'' ''TitleCat'' [(''gen_male'', IntV 30)])
   \<and> example_parameters ''drop_columns_kw_args'' = Some (DropColumnsKw [''Name''])
   \<and> (\<exists>p. create_pipeline example_parameters = Inr p
         \<and> fit_transform p (Ref 0) store0 =
             fold_through
               [\<lambda>df. set_df_index df ''PassengerId'',
                \<lambda>df. create_title_cat df ''Name'' ''TitleCat'' [(''Mr'', ''gen_male'')],
                \<lambda>df. impute_age df ''Age'' ''TitleCat'' [(''gen_male'', IntV 30)],
                \<lambda>df. drop_columns df [''Name'']] (Ref 0) store0)"
proof -
  have h1: "example_parameters ''set_df_index_kw_args'' = Some (SetDfIndexKw ''PassengerId'')"
    by (simp add: example_parameters_def)
  have h2: "example_parameters ''create_title_cat_kw_args'' =
       Some (CreateTitleCatKw ''Name'' ''TitleCat'' [(''Mr'', ''gen_male'')])"
    by (simp add: example_parameters_def)
  have h3: "example_parameters ''impute_age_kw_args'' =
       Some (ImputeAgeKw ''Age'' ''TitleCat'' [(''gen_male'', IntV 30)])"
    by (simp add: example_parameters_def)
  have h4: "example_parameters ''drop_columns_kw_args'' = Some (DropColumnsKw [''Name''])"
    by (simp add: example_parameters_def)
  from pipeline_folds_in_order [OF h1 h2 h3 h4] h1 h2 h3 h4 show ?thesis by blast
qed

section \<open>Imputation\<close>


lemma assign_age_absent:
  "\<forall>t. map_of r tcol = Some (StrV t) \<longrightarrow> t \<notin> fst ` set codes \<Longrightarrow>
   assign_age r tcol codes age = Inr age \<or> (\<exists>e. assign_age r tcol codes age = Inl e)"
proof (induction codes arbitrary: age)
  case Nil
  then show ?case by simp
next
  case (Cons kv codes)
  obtain k v where kv: "kv = (k, v)" by (cases kv)
  from Cons.prems kv have rest: "\<forall>t. map_of r tcol = Some (StrV t) \<longrightarrow> t \<notin> fst ` set codes"
    and here: "map_of r tcol \<noteq> Some (StrV k)" by auto
  show ?case
  proof (cases "map_of r tcol")
    case None
    with kv show ?thesis by (simp add: getitem_def)
  next
    case (Some c)
    with here have "c \<noteq> StrV k" by simp
    with Some kv Cons.IH [OF rest, of age] show ?thesis by (simp add: getitem_def)
  qed
qed

lemma infer_age_absent:
  assumes "map_of r src = Some NaN"
    and "\<forall>t. map_of r tcol = Some (StrV t) \<longrightarrow> t \<notin> fst ` set codes"
  shows "\<exists>e. infer_age r src tcol codes = Inl e"
  using assms(1) assign_age_absent [OF assms(2), of None]
  by (auto simp: infer_age_def getitem_def isnull_def)



lemma py_trunc_example: "py_trunc (57 / 2) = 28"
  by code_simp



lemma impute_age_no_columns:
  assumes "a < length (heap s)" and "columns (heap s ! a) = []"
  shows "impute_age (Ref a) source_column title_column age_codes s =
           (Inr PyNone,
            s\<lparr>heap := heap s @ [heap s ! a],
              logged := logged s @ [(INFO, ''Running impute_age()''),
                                     (ERROR, ''Error in impute_age()'')]\<rparr>)"
  using assms
  by (simp add: impute_age_unfold deref_def apply_rows_def probe_def infer_age_def getitem_def
      df_setitem_def)

lemma impute_age_row_fails:
  assumes "a < length (heap s)" and "rows (heap s ! a) \<noteq> []"
    and "columns (heap s ! a) \<noteq> []"
    and "each_row (\<lambda>row. infer_age row source_column title_column age_codes)
           (rows (heap s ! a)) = Inl e"
  shows "impute_age (Ref a) source_column title_column age_codes s =
           (Inr PyNone,
            s\<lparr>heap := heap s @ [heap s ! a],
              logged := logged s @ [(INFO, ''Running impute_age()''),
                                     (ERROR, ''Error in impute_age()'')]\<rparr>)"
  using assms by (simp add: impute_age_unfold deref_def apply_rows_nonempty)




text \<open>
  C4, as the code has it: when some row has a missing source value and a category that
  is no key of the fill-value mapping, no fill value is assigned for that row, and
  returning the unbound \<open>age\<close> raises. The exception leaves \<open>apply\<close>, is caught and
  logged by \<open>impute_age\<close>, and the result is \<open>None\<close>: no table is returned, and the
  copy that was made is left as the input was.
\<close>

theorem impute_age_unmapped_category:
  assumes valid: "a < length (heap s)"
    and row: "(k, r) \<in> set (rows (heap s ! a))"
    and missing: "map_of r source_column = Some NaN"
    and absent: "\<forall>t. map_of r title_column = Some (StrV t) \<longrightarrow> t \<notin> fst ` set age_codes"
  shows "impute_age (Ref a) source_column title_column age_codes s =
           (Inr PyNone,
            s\<lparr>heap := heap s @ [heap s ! a],
              logged := logged s @ [(INFO, ''Running impute_age()''),
                                     (ERROR, ''Error in impute_age()'')]\<rparr>)"
proof -
  from row have nonempty: "rows (heap s ! a) \<noteq> []" by auto
  from infer_age_absent [OF missing absent] obtain e where
    "infer_age r source_column title_column age_codes = Inl e" by blast
  from each_row_fail [OF row, of "\<lambda>row. infer_age row source_column title_column age_codes", OF this]
  obtain e' where
    step: "each_row (\<lambda>row. infer_age row source_column title_column age_codes) (rows (heap s ! a)) = Inl e'"
    by blast
  show ?thesis
  proof (cases "columns (heap s ! a) = []")
    case True
    from impute_age_no_columns [OF valid True] show ?thesis .
  next
    case False
    from impute_age_row_fails [OF valid nonempty False step] show ?thesis .
  qed
qed

theorem impute_age_unmapped_category_witness:
  "0 < length (heap store0)
   \<and> (IntV 1, snd (rows passengers ! 1)) \<in> set (rows (heap store0 ! 0))
   \<and> map_of (snd (rows passengers ! 1)) ''Age'' = Some NaN
   \<and> list_all (\<lambda>key. map_of (snd (rows passengers ! 1)) ''TitleCat'' \<noteq> Some (StrV key))
        (map fst [(''gen_male'', IntV 30)])
   \<and> impute_age (Ref 0) ''Age'' ''TitleCat'' [(''gen_male'', IntV 30)] store0 =
       (Inr PyNone,
        store0\<lparr>heap := heap store0 @ [heap store0 ! 0],
               logged := logged store0 @ [(INFO, ''Running impute_age()''),
                                           (ERROR, ''Error in impute_age()'')]\<rparr>)"
proof -
  have h1: "0 < length (heap store0)" by (simp add: store0_def)
  have h2: "(IntV 1, snd (rows passengers ! 1)) \<in> set (rows (heap store0 ! 0))"
    by (simp add: store0_def passengers_def)
  have h3: "map_of (snd (rows passengers ! 1)) ''Age'' = Some NaN"
    by (simp add: passengers_def)
  have h4: "\<forall>t. map_of (snd (rows passengers ! 1)) ''TitleCat'' = Some (StrV t)
              \<longrightarrow> t \<notin> fst ` set [(''gen_male'', IntV 30)]"
    by (simp add: passengers_def)
  have h4': "list_all (\<lambda>key. map_of (snd (rows passengers ! 1)) ''TitleCat'' \<noteq> Some (StrV key))
        (map fst [(''gen_male'', IntV 30)])"
    by (simp add: passengers_def)
  from impute_age_unmapped_category [OF h1 h2 h3 h4] h1 h2 h3 h4' show ?thesis by blast
qed

text \<open>
  The claim as stated, that the table is still returned with the other rows processed,
  fails on the example table with a mapping that lacks the second row's category.
\<close>

theorem impute_age_unmapped_counterexample:
  "impute_age (Ref 0) ''Age'' ''TitleCat'' [(''gen_male'', IntV 30)] store0 =
     (Inr PyNone,
      \<lparr>heap = [passengers, passengers],
       logged = [(INFO, ''Running impute_age()''), (ERROR, ''Error in impute_age()'')]\<rparr>)"
  by (simp add: impute_age_unfold deref_def apply_rows_def store0_def passengers_def
      infer_age_def getitem_def isnull_def py_trunc_example)

section \<open>Family size\<close>









text \<open>
  C10: \<open>create_family_size\<close> leaves the caller's table as it was. The destination
  column is assigned to the copy, a new object: the value passed in denotes the same
  table after the call as before, and so does every object the store held.
\<close>

theorem create_family_size_keeps_input:
  "table_of (snd (create_family_size float_total df source_columns dest_column s)) df
     = table_of s df
   \<and> take (length (heap s))
         (heap (snd (create_family_size float_total df source_columns dest_column s)))
       = heap s"
proof (cases "deref s df")
  case (Inl e)
  then show ?thesis
    by (simp add: create_family_size_unfold table_of_logged)
next
  case (Inr d)
  then have before: "table_of s df = Some d" by (simp add: table_of_def)
  show ?thesis
  proof (cases "case apply_rows (family_size float_total source_columns) d of
                  Inl e \<Rightarrow> Inl e
                | Inr res \<Rightarrow> df_setitem d dest_column res")
    case (Inl e)
    with Inr before show ?thesis
      by (simp add: create_family_size_unfold table_of_extend)
  next
    case assigned: (Inr assigned)
    with Inr before show ?thesis
      by (simp add: create_family_size_unfold table_of_extend)
  qed
qed

section \<open>Title category\<close>











lemma extract_title_update:
  "dest_column \<noteq> source_column \<Longrightarrow>
   extract_title (AList.update dest_column v r) source_column = extract_title r source_column"
  by (simp add: extract_title_def getitem_def update_conv')

lemma each_row_updated:
  assumes "length rs = length ws" and "\<And>r v. f (AList.update c v r) = f r"
  shows "each_row f (map (\<lambda>((k, r), v). (k, AList.update c v r)) (zip rs ws)) =
         each_row f rs"
proof -
  define g :: "(cell \<times> series) \<times> cell \<Rightarrow> cell \<times> series"
    where "g = (\<lambda>((k, r), v). (k, AList.update c v r))"
  have g: "\<And>k r v. g ((k, r), v) = (k, AList.update c v r)" by (simp add: g_def)
  have "each_row f (map g (zip rs ws)) = each_row f rs"
    using assms(1)
  proof (induction rs ws rule: list_induct2)
    case Nil
    show ?case by simp
  next
    case (Cons p rs w ws)
    then show ?case by (cases p) (simp add: g assms(2) split: sum.splits)
  qed
  then show ?thesis by (simp add: g_def)
qed

lemma update_rows_twice:
  fixes rs :: "(cell \<times> series) list"
  assumes "length rs = length ws"
  shows "map (\<lambda>((k, r), v). (k, AList.update c v r))
           (zip (map (\<lambda>((k, r), v). (k, AList.update c v r)) (zip rs ws)) ws) =
         map (\<lambda>((k, r), v). (k, AList.update c v r)) (zip rs ws)"
proof -
  define g :: "(cell \<times> series) \<times> cell \<Rightarrow> cell \<times> series"
    where "g = (\<lambda>((k, r), v). (k, AList.update c v r))"
  have g: "\<And>k r v. g ((k, r), v) = (k, AList.update c v r)" by (simp add: g_def)
  have "map g (zip (map g (zip rs ws)) ws) = map g (zip rs ws)"
    using assms
  proof (induction rs ws rule: list_induct2)
    case Nil
    show ?case by simp
  next
    case (Cons p rs w ws)
    then show ?case by (cases p) (simp add: g)
  qed
  then show ?thesis by (simp add: g_def)
qed

lemma setitem_twice:
  "length (rows d) = length ws \<Longrightarrow> setitem (setitem d c ws) c ws = setitem d c ws"
  by (simp add: setitem_def update_rows_twice)

lemma create_title_cat_rows:
  assumes "a < length (heap s)" and "rows (heap s ! a) \<noteq> []"
    and "columns (heap s ! a) \<noteq> []"
    and "each_row (\<lambda>row. extract_title row source_column) (rows (heap s ! a)) = Inr raw"
  shows "create_title_cat (Ref a) source_column dest_column title_codes s =
           (Inr (Ref (length (heap s))),
            s\<lparr>heap := heap s @ [setitem (heap s ! a) dest_column (series_replace title_codes raw)],
              logged := logged s @ [(INFO, ''Running create_title_cat()'')]\<rparr>)"
  using assms by (simp add: create_title_cat_unfold deref_def apply_rows_nonempty df_setitem_def)

lemma create_title_cat_row_fails:
  assumes "a < length (heap s)" and "rows (heap s ! a) \<noteq> []"
    and "columns (heap s ! a) \<noteq> []"
    and "each_row (\<lambda>row. extract_title row source_column) (rows (heap s ! a)) = Inl e"
  shows "create_title_cat (Ref a) source_column dest_column title_codes s =
           (Inr PyNone,
            s\<lparr>heap := heap s @ [heap s ! a],
              logged := logged s @ [(INFO, ''Running create_title_cat()''),
                                     (ERROR, ''Error in create_title_cat()'')]\<rparr>)"
  using assms by (simp add: create_title_cat_unfold deref_def apply_rows_nonempty)




lemma create_title_cat_returns:
  "\<exists>v s'. create_title_cat df source_column dest_column title_codes s = (Inr v, s')"
  by (simp add: create_title_cat_unfold split: sum.splits)

text \<open>
  On a table without rows, or without columns, the probe of \<open>extract_title\<close> always
  raises, so the result depends on the number of columns only: a table of one column
  is assigned to the destination column, any other is refused.
\<close>

lemma extract_title_probe: "\<exists>e. extract_title (probe d) source_column = Inl e"
proof (cases "map_of (probe d) source_column")
  case None
  then show ?thesis by (simp add: extract_title_def getitem_def)
next
  case (Some v)
  then have "(source_column, v) \<in> set (probe d)" by (rule map_of_SomeD)
  then have "v = NaN" by (auto simp: probe_def)
  with Some show ?thesis by (simp add: extract_title_def getitem_def)
qed

lemma create_title_cat_no_rows:
  assumes "deref s df = Inr d" and "rows d = [] \<or> columns d = []"
  shows "create_title_cat df source_column dest_column title_codes s =
           (case columns d of
              [c] \<Rightarrow>
                (Inr (Ref (length (heap s))),
                 s\<lparr>heap := heap s @ [setitem d dest_column []],
                   logged := logged s @ [(INFO, ''Running create_title_cat()'')]\<rparr>)
            | _ \<Rightarrow>
                (Inr PyNone,
                 s\<lparr>heap := heap s @ [d],
                   logged := logged s @ [(INFO, ''Running create_title_cat()''),
                                          (ERROR, ''Error in create_title_cat()'')]\<rparr>))"
proof -
  from extract_title_probe obtain e where "extract_title (probe d) source_column = Inl e"
    by blast
  with assms(2) have ap: "apply_rows (\<lambda>dt row. extract_title row source_column) d = Inr (FrameOf d)"
    by (simp add: apply_rows_def)
  have cols: "columns (frame_replace title_codes d) = columns d"
    by (simp add: frame_replace_def)
  show ?thesis
  proof (cases "rows d = []")
    case True
    then have cv: "\<And>c. column_values (frame_replace title_codes d) c = []"
      by (simp add: column_values_def frame_replace_def)
    show ?thesis
      using assms(1) ap
      by (simp add: create_title_cat_unfold df_setitem_def cols cv split: list.splits)
  next
    case False
    with assms(2) have "columns d = []" by simp
    then show ?thesis
      using assms(1) ap
      by (simp add: create_title_cat_unfold df_setitem_def cols)
  qed
qed

text \<open>
  C8, amended: when the destination column is not the source column, and the input is
  not a table without rows whose one column is another than the destination column,
  applying \<open>create_title_cat\<close> to its own output with the same columns and code table
  gives a table equal to that output: no row changes, whatever its destination value.
\<close>

theorem create_title_cat_twice:
  assumes differ: "dest_column \<noteq> source_column"
    and lone: "\<forall>d. table_of s df = Some d \<and> rows d = [] \<and> length (columns d) = 1
                 \<longrightarrow> dest_column \<in> set (columns d)"
    and first: "create_title_cat df source_column dest_column title_codes s = (Inr once, s1)"
    and second: "create_title_cat once source_column dest_column title_codes s1 = (Inr twice, s2)"
  shows "table_of s2 twice = table_of s1 once"
proof (cases "deref s df")
  case (Inl e)
  with first have once: "once = PyNone" by (auto simp: create_title_cat_unfold)
  with second have "twice = PyNone" by (auto simp: create_title_cat_unfold deref_def)
  with once show ?thesis by (simp add: table_of_None)
next
  case (Inr d)
  let ?f = "\<lambda>row. extract_title row source_column"
  have none_again: "once = PyNone \<Longrightarrow> ?thesis"
  proof -
    assume once: "once = PyNone"
    with second have "twice = PyNone" by (auto simp: create_title_cat_unfold deref_def)
    with once show ?thesis by (simp add: table_of_None)
  qed
  show ?thesis
  proof (cases "rows d = [] \<or> columns d = []")
    case True
    note degenerate = True
    note run = create_title_cat_no_rows [OF Inr True, of source_column dest_column title_codes]
    show ?thesis
    proof (cases "\<exists>c. columns d = [c]")
      case False
      with run first have "once = PyNone" by (auto split: list.splits)
      then show ?thesis by (rule none_again)
    next
      case True
      then obtain c where c: "columns d = [c]" by blast
      with degenerate have \<open>rows d = []\<close> by simp
      from Inr have "table_of s df = Some d" by (simp add: table_of_def)
      with lone \<open>rows d = []\<close> c have "dest_column \<in> set (columns d)" by simp
      with c have dest: "dest_column = c" by simp
      have same: "setitem d dest_column [] = d"
        using c dest \<open>rows d = []\<close> by (simp add: setitem_def)
      from run first c same have once: "once = Ref (length (heap s))"
        and s1: "s1 = s\<lparr>heap := heap s @ [d],
                        logged := logged s @ [(INFO, ''Running create_title_cat()'')]\<rparr>"
        by auto
      have d_once: "deref s1 once = Inr d" by (simp add: once s1 deref_def)
      from create_title_cat_no_rows [OF d_once degenerate, of source_column dest_column title_codes]
        second c same
      have twice: "twice = Ref (length (heap s1))"
        and s2: "s2 = s1\<lparr>heap := heap s1 @ [d],
                         logged := logged s1 @ [(INFO, ''Running create_title_cat()'')]\<rparr>"
        by auto
      have "table_of s2 twice = Some d" unfolding twice s2 by (rule table_of_last)
      moreover have "table_of s1 once = Some d" using d_once by (simp add: table_of_def)
      ultimately show ?thesis by simp
    qed
  next
    case False
    from Inr obtain a where df: "df = Ref a" and valid: "a < length (heap s)"
      and d: "d = heap s ! a"
      by (cases df) (auto simp: deref_def split: if_splits)
    from False d have nonempty: "rows (heap s ! a) \<noteq> []"
      and cols: "columns (heap s ! a) \<noteq> []" by simp_all
    show ?thesis
    proof (cases "each_row ?f (rows d)")
      case (Inl e)
      with create_title_cat_row_fails [OF valid nonempty cols, of source_column e dest_column title_codes]
        first df d
      have "once = PyNone" by simp
      then show ?thesis by (rule none_again)
    next
      case (Inr raw)
      define ws where "ws = series_replace title_codes raw"
      define d1 where "d1 = setitem d dest_column ws"
      from each_row_length [OF Inr] have len: "length (rows d) = length ws"
        by (simp add: ws_def series_replace_def)
      from create_title_cat_rows [OF valid nonempty cols, of source_column raw dest_column title_codes]
        first df d Inr
      have once: "once = Ref (length (heap s))"
        and s1: "s1 = s\<lparr>heap := heap s @ [d1],
                        logged := logged s @ [(INFO, ''Running create_title_cat()'')]\<rparr>"
        by (auto simp: ws_def d1_def)
      have valid1: "length (heap s) < length (heap s1)" by (simp add: s1)
      have at1: "heap s1 ! length (heap s) = d1" by (simp add: s1)
      have rows1: "rows (heap s1 ! length (heap s)) \<noteq> []"
        using False setitem_length [OF len [symmetric], of dest_column]
        by (auto simp: at1 d1_def)
      have cols1: "columns (heap s1 ! length (heap s)) \<noteq> []"
        using False by (simp add: at1 d1_def setitem_columns)
      have "each_row ?f (rows d1) = each_row ?f (rows d)"
        unfolding d1_def setitem_def
        using each_row_updated [OF len, of ?f dest_column] extract_title_update [OF differ]
        by simp
      with Inr have again: "each_row ?f (rows (heap s1 ! length (heap s))) = Inr raw"
        by (simp add: at1)
      have same: "setitem d1 dest_column ws = d1"
        unfolding d1_def by (rule setitem_twice [OF len])
      from create_title_cat_rows [OF valid1 rows1 cols1 again, of dest_column title_codes]
        second once same
      have twice: "twice = Ref (length (heap s1))"
        and s2: "s2 = s1\<lparr>heap := heap s1 @ [d1],
                         logged := logged s1 @ [(INFO, ''Running create_title_cat()'')]\<rparr>"
        by (auto simp: at1 ws_def)
      have "table_of s2 twice = Some d1"
        unfolding twice s2 by (rule table_of_last)
      moreover have "table_of s1 once = Some d1"
        by (simp add: table_of_def deref_def once s1)
      ultimately show ?thesis by simp
    qed
  qed
qed

theorem create_title_cat_twice_witness:
  "''TitleCat'' \<noteq> ''Name''
   \<and> table_of store0 (Ref 0) = Some passengers
   \<and> rows passengers \<noteq> []
   \<and> (\<exists>once s1 twice s2.
        create_title_cat (Ref 0) ''Name'' ''TitleCat'' [(''Mr'', ''gen_male'')] store0 = (Inr once, s1)
        \<and> create_title_cat once ''Name'' ''TitleCat'' [(''Mr'', ''gen_male'')] s1 = (Inr twice, s2)
        \<and> table_of s2 twice = table_of s1 once)"
proof -
  have h1: "''TitleCat'' \<noteq> ''Name''" by simp
  have t: "table_of store0 (Ref 0) = Some passengers"
    by (simp add: table_of_def deref_def store0_def)
  have r: "rows passengers \<noteq> []" by (simp add: passengers_def)
  from t r have h2: "\<forall>d. table_of store0 (Ref 0) = Some d \<and> rows d = [] \<and> length (columns d) = 1
                 \<longrightarrow> ''TitleCat'' \<in> set (columns d)"
    by auto
  obtain once s1 where
    first: "create_title_cat (Ref 0) ''Name'' ''TitleCat'' [(''Mr'', ''gen_male'')] store0 = (Inr once, s1)"
    using create_title_cat_returns by blast
  obtain twice s2 where
    second: "create_title_cat once ''Name'' ''TitleCat'' [(''Mr'', ''gen_male'')] s1 = (Inr twice, s2)"
    using create_title_cat_returns by blast
  from create_title_cat_twice [OF h1 h2 first second] h1 t r first second show ?thesis by blast
qed

lemma renamed_once_value:
  "renamed_once =
     (Inr (Ref 1),
      \<lparr>heap = [passengers,
               setitem passengers ''Name'' [StrV ''gen_male'', StrV ''Miss'']],
       logged = [(INFO, ''Running create_title_cat()'')]\<rparr>)"
  by (simp add: renamed_once_def create_title_cat_unfold deref_def apply_rows_def df_setitem_def
      store0_def passengers_def extract_title_def getitem_def match_here_def is_letter_def
      series_replace_def)

text \<open>
  The claim as stated fails when the destination column is the source column: the
  first run puts \<open>gen_male\<close>, a value of the code table, into the first row, and the
  second run, which extracts from that column again, replaces it by the empty text.
\<close>

theorem create_title_cat_twice_counterexample:
  "fst renamed_once = Inr (Ref 1)
   \<and> column_values (heap (snd renamed_once) ! 1) ''Name'' = [StrV ''gen_male'', StrV ''Miss'']
   \<and> ''gen_male'' \<in> snd ` set [(''Mr'', ''gen_male'')]
   \<and> fst renamed_twice = Inr (Ref 2)
   \<and> column_values (heap (snd renamed_twice) ! 2) ''Name'' = [StrV [], StrV []]"
  by (simp add: renamed_twice_def renamed_once_value create_title_cat_unfold deref_def
      apply_rows_def df_setitem_def setitem_def passengers_def extract_title_def getitem_def
      match_here_def is_letter_def series_replace_def column_values_def)

text \<open>
  The table excluded above: it has no rows and the one column \<open>Name\<close>. The first run
  returns it with the column \<open>TitleCat\<close> added; the second run, on a table of two
  columns, returns \<open>None\<close>.
\<close>

lemma create_title_cat_twice_lone_column:
  "create_title_cat (Ref 0) ''Name'' ''TitleCat'' [(''Mr'', ''gen_male'')]
     \<lparr>heap = [no_names], logged = []\<rparr> =
     (Inr (Ref 1),
      \<lparr>heap = [no_names, no_names\<lparr>columns := [''Name'', ''TitleCat'']\<rparr>],
       logged = [(INFO, ''Running create_title_cat()'')]\<rparr>)
   \<and> create_title_cat (Ref 1) ''Name'' ''TitleCat'' [(''Mr'', ''gen_male'')]
       \<lparr>heap = [no_names, no_names\<lparr>columns := [''Name'', ''TitleCat'']\<rparr>],
        logged = [(INFO, ''Running create_title_cat()'')]\<rparr> =
     (Inr PyNone,
      \<lparr>heap = [no_names, no_names\<lparr>columns := [''Name'', ''TitleCat'']\<rparr>,
               no_names\<lparr>columns := [''Name'', ''TitleCat'']\<rparr>],
       logged = [(INFO, ''Running create_title_cat()''),
                 (INFO, ''Running create_title_cat()''),
                 (ERROR, ''Error in create_title_cat()'')]\<rparr>)"
  by (simp add: create_title_cat_no_rows deref_def no_names_def setitem_def)

section \<open>Failures at the function boundary\<close>

text \<open>
  \<open>drop_columns\<close>, \<open>create_title_cat\<close>, \<open>impute_age\<close> and \<open>create_family_size\<close>
  never raise: a failure of the table operation is logged and the result is \<open>None\<close>.
\<close>

lemma drop_columns_returns:
  "\<exists>v s'. drop_columns df drop_column_names s = (Inr v, s')"
  by (simp add: drop_columns_def split: prod.splits sum.splits)

lemma drop_columns_failure:
  "deref s df = Inr d \<Longrightarrow> df_drop d drop_column_names = Inl e \<Longrightarrow>
   drop_columns df drop_column_names s =
     (Inr PyNone,
      s\<lparr>logged := logged s @ [(INFO, ''Running drop_columns()''),
                               (ERROR, ''Error in drop_columns()'')]\<rparr>)"
  by (simp add: drop_columns_def method_drop_def logger_info_def logger_exception_def
      deref_logged)

lemma impute_age_returns:
  "\<exists>v s'. impute_age df source_column title_column age_codes s = (Inr v, s')"
  by (simp add: impute_age_unfold split: sum.splits)

lemma create_family_size_returns:
  "\<exists>v s'. create_family_size float_total df source_columns dest_column s = (Inr v, s')"
  by (simp add: create_family_size_unfold split: sum.splits)

text \<open>
  \<open>set_df_index\<close> logs the failure of \<open>set_index\<close> as well, but then reads the
  local that was never bound: it raises \<open>UnboundLocalError\<close> to its caller.
\<close>

lemma set_df_index_failure:
  "deref s df = Inr d \<Longrightarrow> df_set_index d df_index_col = Inl e \<Longrightarrow>
   set_df_index df df_index_col s =
     (Inl UnboundLocalError,
      s\<lparr>logged := logged s @ [(INFO, ''Running set_df_index()''),
                               (ERROR, ''Error in set_df_index()'')]\<rparr>)"
  by (simp add: set_df_index_def method_set_index_def logger_info_def logger_exception_def
      deref_logged)

lemma set_df_index_no_table:
  "deref s df = Inl e \<Longrightarrow>
   set_df_index df df_index_col s =
     (Inl UnboundLocalError,
      s\<lparr>logged := logged s @ [(INFO, ''Running set_df_index()''),
                               (ERROR, ''Error in set_df_index()'')]\<rparr>)"
  by (simp add: set_df_index_def method_set_index_def logger_info_def logger_exception_def
      deref_logged)

text \<open>
  C3 says that every transform catches the failure of the table operation, logs it and
  returns an empty result instead of an exception, \<open>set_df_index\<close> on a column that
  does not exist in particular. The code at that input: the example table has no
  column \<open>Ticket\<close>; the failure is logged, and the call raises.
\<close>

theorem set_df_index_missing_column:
  "set_df_index (Ref 0) ''Ticket'' store0 =
     (Inl UnboundLocalError,
      \<lparr>heap = [passengers],
       logged = [(INFO, ''Running set_df_index()''), (ERROR, ''Error in set_df_index()'')]\<rparr>)"
  by (simp add: set_df_index_def method_set_index_def logger_info_def logger_exception_def
      deref_def df_set_index_def store0_def passengers_def)

section \<open>Integer columns at ingest\<close>

text \<open>
  The object tested by \<open>isinstance\<close> is a column, never a scalar: the test fails for
  every column, and the loop returns the table it was given, or raises \<open>KeyError\<close>
  when it is run over a name that is no column of \<open>df_train\<close>.
\<close>

lemma series_not_int64: "df_getitem df label = Inr obj \<Longrightarrow> \<not> isinstance_int64 obj"
  by (auto simp: df_getitem_def split: if_splits)

lemma convert_loop_unchanged:
  "convert_loop cs df_train =
     (if list_all (\<lambda>c. c \<in> set (columns df_train)) cs then Inr df_train else Inl KeyError)"
  by (induction cs) (simp_all add: df_getitem_def)

text \<open>
  C1 says that \<open>ingest_split\<close> converts every integer column of the train table and
  of the holdout table to floats. The code on two tables of integer columns: the
  features handed to the split and the holdout table returned still hold the integers
  \<open>Pclass\<close> was loaded with.
\<close>

theorem ingest_split_converts_nothing:
  "ingest_split split train_table holdout_table ''Survived'' split_parameters =
     (case split (4 / 5) (1 / 5) 42 train_features train_target of
        (X_train, X_test, y_train, y_test) \<Rightarrow>
          Inr (X_train, X_test, y_train, y_test, holdout_table))
   \<and> column_values train_features ''Pclass'' = [IntV 3, IntV 1]
   \<and> column_values holdout_table ''Pclass'' = [IntV 3]"
  by (simp add: ingest_split_def split_parameters_def convert_loop_unchanged df_drop_def
      df_select_def train_table_def holdout_table_def train_features_def train_target_def
      column_values_def)

end
